theory Spec2Isabelle
  imports Main
begin

section \<open>Data model\<close>

text \<open>
  The guards are TypeScript methods over an untyped (\<open>any\<close>) request object, so the
  values they compare are JavaScript values.  A header value read from the request is one
  of the primitives below; \<open>JArr\<close> is the \<open>string[]\<close> that Node's
  \<open>IncomingHttpHeaders\<close> carries for repeated headers.  \<open>JNum\<close> carries the
  integer-valued numbers only.
\<close>

datatype jsval =
    JUndefined
  | JNull
  | JBool bool
  | JNum int
  | JStr string
  | JArr "string list"

text \<open>
  \<open>request.headers\<close>: a plain object (a dictionary from header names to values), or
  missing altogether (\<open>undefined\<close> or \<open>null\<close>).
\<close>

datatype headers_slot =
    HUndefined
  | HNull
  | HObj "string \<rightharpoonup> jsval"

record request =
  headers :: headers_slot

text \<open>
  The metadata that decorators attach to a handler function or to a controller class: a
  table from metadata keys to the string arrays stored under them.
\<close>

type_synonym target = "string \<rightharpoonup> string list"

text \<open>
  The execution context handed to \<open>canActivate\<close>:
  \<open>context.switchToHttp().getRequest()\<close>, \<open>context.getHandler()\<close> and
  \<open>context.getClass()\<close>.  It doubles as the state a guard runs in: everything a guard
  could read or write through its \<open>context\<close> argument is in this record.
\<close>

record ExecutionContext =
  getRequest :: request
  getHandler :: target
  getClass :: target

text \<open>The only exception the guards' own code can raise.\<close>

datatype error = TypeError

text \<open>
  The injected \<open>Reflector\<close>, as far as \<open>AuthGuard\<close> uses it: its method
  \<open>getAllAndOverride(key, targets)\<close>, which answers a string array or \<open>undefined\<close>
  (\<open>None\<close>).
\<close>

type_synonym Reflector = "string \<Rightarrow> target list \<Rightarrow> string list option"

section \<open>JavaScript primitives used by the guards\<close>

text \<open>Truthiness, as \<open>&&\<close> and \<open>if\<close> test it.\<close>

fun truthy :: "jsval \<Rightarrow> bool" where
  "truthy JUndefined = False"
| "truthy JNull = False"
| "truthy (JBool b) = b"
| "truthy (JNum n) = (n \<noteq> 0)"
| "truthy (JStr s) = (s \<noteq> [])"
| "truthy (JArr xs) = True"

fun truthy_headers :: "headers_slot \<Rightarrow> bool" where
  "truthy_headers HUndefined = False"
| "truthy_headers HNull = False"
| "truthy_headers (HObj m) = True"

text \<open>
  \<open>v === 'literal'\<close>: strict equality against a string literal holds for the very same
  string only; no operand is converted.
\<close>

fun strict_eq_str :: "jsval \<Rightarrow> string \<Rightarrow> bool" where
  "strict_eq_str (JStr s) t = (s = t)"
| "strict_eq_str _ t = False"

text \<open>
  Reading a property of the headers object: \<open>h[k]\<close> and \<open>h.k\<close>.  A key the object
  lacks reads as \<open>undefined\<close>; reading a property of \<open>undefined\<close> or \<open>null\<close>
  raises a TypeError.
\<close>

fun get_prop :: "headers_slot \<Rightarrow> string \<Rightarrow> error + jsval" where
  "get_prop HUndefined k = Inl TypeError"
| "get_prop HNull k = Inl TypeError"
| "get_prop (HObj m) k = (case m k of None \<Rightarrow> Inr JUndefined | Some v \<Rightarrow> Inr v)"

text \<open>\<open>xs.includes(x)\<close> on a string array.\<close>

definition Array_includes :: "string list \<Rightarrow> string \<Rightarrow> bool" where
  "Array_includes xs x = (x \<in> set xs)"

section \<open>Statements with state and exceptions\<close>

text \<open>
  A statement runs in the execution context and ends in a value or in a raised error,
  leaving a context behind.
\<close>

type_synonym 'a js = "ExecutionContext \<Rightarrow> (error + 'a) \<times> ExecutionContext"

definition js_return :: "'a \<Rightarrow> 'a js" where
  "js_return v = (\<lambda>s. (Inr v, s))"

definition js_throw :: "error \<Rightarrow> 'a js" where
  "js_throw e = (\<lambda>s. (Inl e, s))"

definition js_bind :: "'a js \<Rightarrow> ('a \<Rightarrow> 'b js) \<Rightarrow> 'b js" where
  "js_bind m f = (\<lambda>s. case m s of (Inl e, s') \<Rightarrow> (Inl e, s') | (Inr v, s') \<Rightarrow> f v s')"

text \<open>\<open>context.switchToHttp().getRequest()\<close>\<close>

definition switchToHttp_getRequest :: "request js" where
  "switchToHttp_getRequest = (\<lambda>s. (Inr (getRequest s), s))"

text \<open>\<open>context.getHandler()\<close> and \<open>context.getClass()\<close>\<close>

definition context_getHandler :: "target js" where
  "context_getHandler = (\<lambda>s. (Inr (getHandler s), s))"

definition context_getClass :: "target js" where
  "context_getClass = (\<lambda>s. (Inr (getClass s), s))"

text \<open>A property read as a statement: it raises where \<open>get_prop\<close> fails.\<close>

definition read_prop :: "headers_slot \<Rightarrow> string \<Rightarrow> jsval js" where
  "read_prop h k = (case get_prop h k of Inl e \<Rightarrow> js_throw e | Inr v \<Rightarrow> js_return v)"

section \<open>The guards\<close>

text \<open>
  \<open>BusinessGuard.canActivate\<close> (src/guards/business.guard.ts):
  \<^verbatim>\<open>
    const request = context.switchToHttp().getRequest();
    const businessID = request.headers['business_id'];
    if (businessID && businessID === '892367480') { return true; }
    return false;
  \<close>
\<close>

definition BusinessGuard_canActivate :: "bool js" where
  "BusinessGuard_canActivate =
     js_bind switchToHttp_getRequest (\<lambda>request.
     js_bind (read_prop (headers request) ''business_id'') (\<lambda>businessID.
       if truthy businessID \<and> strict_eq_str businessID ''892367480''
       then js_return True
       else js_return False))"

text \<open>
  \<open>AuthGuard.canActivate\<close> (guards/auth.guard.ts), with the guard's \<open>reflector\<close>
  field as the parameter \<open>reflector\<close>:
  \<^verbatim>\<open>
    const request = context.switchToHttp().getRequest();
    const apiKey = request.headers;
    const authMetaData = this.reflector.getAllAndOverride<string[]>(
      'authorized', [context.getHandler(), context.getClass()]);
    if (authMetaData?.includes('SkipAuthorizationCheck')) { return true; }
    if (apiKey && apiKey.api_key === 'MY_API_KEY') { return true; }
    return false;
  \<close>
  \<open>authMetaData?.includes(...)\<close> is \<open>undefined\<close>, hence falsy, when the lookup
  answered \<open>undefined\<close>.  \<open>apiKey.api_key\<close> is read only when \<open>apiKey\<close> is truthy.
\<close>

definition AuthGuard_canActivate :: "Reflector \<Rightarrow> bool js" where
  "AuthGuard_canActivate reflector =
     js_bind switchToHttp_getRequest (\<lambda>request.
     (let apiKey = headers request in
      js_bind context_getHandler (\<lambda>handler.
      js_bind context_getClass (\<lambda>cls.
      (let authMetaData = reflector ''authorized'' [handler, cls] in
       if (case authMetaData of None \<Rightarrow> False
           | Some md \<Rightarrow> Array_includes md ''SkipAuthorizationCheck'')
       then js_return True
       else if truthy_headers apiKey
       then js_bind (read_prop apiKey ''api_key'') (\<lambda>api_key.
              if strict_eq_str api_key ''MY_API_KEY''
              then js_return True
              else js_return False)
       else js_return False)))))"


text \<open>
  The guards of the repository.  An \<open>AuthGuard\<close> instance holds the reflector it was
  constructed with (\<open>constructor(private reflector: Reflector)\<close>); a
  \<open>BusinessGuard\<close> has no field.
\<close>

datatype guard =
    AuthGuard Reflector
  | BusinessGuard

fun canActivate :: "guard \<Rightarrow> bool js" where
  "canActivate (AuthGuard reflector) = AuthGuard_canActivate reflector"
| "canActivate BusinessGuard = BusinessGuard_canActivate"

section \<open>Metadata: attaching and looking up\<close>

text \<open>
  Modelled from the spec: \<open>SetMetadata(key, value)\<close> of the framework, whose source is
  not part of the repository.  The spec's metadata attacher stores the given sequence
  against the key for the handler or group it decorates.
\<close>

definition SetMetadata :: "string \<Rightarrow> string list \<Rightarrow> target \<Rightarrow> target" where
  "SetMetadata key metadata t = t(key \<mapsto> metadata)"

text \<open>
  \<open>AuthMetaData\<close> (auth.metadata.decorator.ts):
  \<^verbatim>\<open>
    export const AuthMetaData = (...metadata: string[]) =>
      SetMetadata('authorized', metadata);
  \<close>
\<close>

definition AuthMetaData :: "string list \<Rightarrow> target \<Rightarrow> target" where
  "AuthMetaData metadata = SetMetadata ''authorized'' metadata"

text \<open>
  Modelled from the spec: \<open>Reflector.getAllAndOverride\<close> of the framework, whose source
  is not part of the repository.  The spec's reflection lookup
  \<open>getMetadata(key, [handlerRef, groupRef])\<close> answers a sequence of strings or
  \<open>undefined\<close>; a handler-level definition overrides a group-level one entirely, with
  no merging, and the answer is \<open>undefined\<close> when no site defines the key.  The
  targets are tried in the order given, and the first one that defines the key wins.
\<close>

fun Reflector_getAllAndOverride :: Reflector where
  "Reflector_getAllAndOverride key [] = None"
| "Reflector_getAllAndOverride key (t # ts) =
     (case t key of
        Some metadata \<Rightarrow> Some metadata
      | None \<Rightarrow> Reflector_getAllAndOverride key ts)"

section \<open>Binding and composition of guards\<close>

text \<open>
  Modelled from the spec: the router's evaluation of the guards bound to a handler, whose
  source is not part of the repository.  The guards run strictly in order; the first deny
  stops the evaluation with a deny; when all allow, the verdict is allow.  An exception
  raised by a guard ends the evaluation.  Besides the verdict and the context left behind,
  the function answers the list of the guards it has evaluated, in order.
\<close>

fun tryActivate ::
  "guard list \<Rightarrow> ExecutionContext \<Rightarrow> (error + bool) \<times> ExecutionContext \<times> guard list"
where
  "tryActivate [] s = (Inr True, s, [])"
| "tryActivate (g # gs) s =
     (case canActivate g s of
        (Inl e, s') \<Rightarrow> (Inl e, s', [g])
      | (Inr False, s') \<Rightarrow> (Inr False, s', [g])
      | (Inr True, s') \<Rightarrow>
          (case tryActivate gs s' of (v, s'', evaluated) \<Rightarrow> (v, s'', g # evaluated)))"

text \<open>
  Modelled from the spec: what the router makes of the verdict, dispatch to the handler
  or a rejection (a 403 response).
\<close>

datatype response = Dispatched string | Forbidden | Failed error

definition route :: "guard list \<Rightarrow> string \<Rightarrow> ExecutionContext \<Rightarrow> response" where
  "route guards body s =
     (case fst (tryActivate guards s) of
        Inr True \<Rightarrow> Dispatched body
      | Inr False \<Rightarrow> Forbidden
      | Inl e \<Rightarrow> Failed e)"

text \<open>
  The \<open>test\<close> route of the controller with two guards:
  \<^verbatim>\<open>
    @Get('test')
    @UseGuards(AuthGuard, BusinessGuard)
    test(): string { return 'This is a Test Route'; }
  \<close>
\<close>

definition AppController_test_guards :: "Reflector \<Rightarrow> guard list" where
  "AppController_test_guards reflector = [AuthGuard reflector, BusinessGuard]"

definition AppController_test :: string where
  "AppController_test = ''This is a Test Route''"

text \<open>
  The \<open>public\<close> route of src/app.controller.ts, decorated with
  \<open>@AuthMetaData('SkipAuthorizationCheck')\<close>, in a controller class that carries no
  metadata of its own.
\<close>

definition AppController_getPublic_handler :: target where
  "AppController_getPublic_handler = AuthMetaData [''SkipAuthorizationCheck''] Map.empty"

definition AppController_class :: target where
  "AppController_class = Map.empty"

text \<open>
  The contexts of the requests that the README sends: to a route without metadata with the
  right key, with the wrong key \<open>MY_API\<close>, with the right key and the business id, and
  to the \<open>public\<close> route without any header.
\<close>

definition request_with :: "(string \<rightharpoonup> jsval) \<Rightarrow> target \<Rightarrow> ExecutionContext" where
  "request_with H handler =
     \<lparr>getRequest = \<lparr>headers = HObj H\<rparr>, getHandler = handler,
      getClass = AppController_class\<rparr>"

definition ctx_right_key :: ExecutionContext where
  "ctx_right_key = request_with [''api_key'' \<mapsto> JStr ''MY_API_KEY''] Map.empty"

definition ctx_wrong_key :: ExecutionContext where
  "ctx_wrong_key = request_with [''api_key'' \<mapsto> JStr ''MY_API''] Map.empty"

definition ctx_key_and_business :: ExecutionContext where
  "ctx_key_and_business =
     request_with [''api_key'' \<mapsto> JStr ''MY_API_KEY'',
                   ''business_id'' \<mapsto> JStr ''892367480''] Map.empty"

definition ctx_public_no_headers :: ExecutionContext where
  "ctx_public_no_headers = request_with Map.empty AppController_getPublic_handler"

text \<open>A context whose request has no \<open>headers\<close> property at all.\<close>

definition ctx_without_headers :: ExecutionContext where
  "ctx_without_headers =
     \<lparr>getRequest = \<lparr>headers = HUndefined\<rparr>, getHandler = Map.empty,
      getClass = AppController_class\<rparr>"

section \<open>What the guards compute\<close>

lemma BusinessGuard_canActivate_eq:
  "BusinessGuard_canActivate s =
     ((case headers (getRequest s) of
         HObj H \<Rightarrow> Inr (H ''business_id'' = Some (JStr ''892367480''))
       | _ \<Rightarrow> Inl TypeError), s)"
proof (cases "headers (getRequest s)")
  case HUndefined
  then show ?thesis
    by (simp add: BusinessGuard_canActivate_def js_bind_def switchToHttp_getRequest_def
        read_prop_def js_throw_def)
next
  case HNull
  then show ?thesis
    by (simp add: BusinessGuard_canActivate_def js_bind_def switchToHttp_getRequest_def
        read_prop_def js_throw_def)
next
  case (HObj H)
  show ?thesis
  proof (cases "H ''business_id''")
    case None
    with HObj show ?thesis
      by (simp add: BusinessGuard_canActivate_def js_bind_def switchToHttp_getRequest_def
          read_prop_def js_return_def)
  next
    case (Some v)
    with HObj show ?thesis
      by (cases v)
        (auto simp add: BusinessGuard_canActivate_def js_bind_def
          switchToHttp_getRequest_def read_prop_def js_return_def)
  qed
qed

lemma api_key_read:
  "js_bind (read_prop (HObj H) ''api_key'')
      (\<lambda>api_key. if strict_eq_str api_key ''MY_API_KEY''
                 then js_return True else js_return False) s =
   (Inr (H ''api_key'' = Some (JStr ''MY_API_KEY'')), s)"
proof (cases "H ''api_key''")
  case None
  then show ?thesis by (simp add: js_bind_def read_prop_def js_return_def)
next
  case (Some v)
  then show ?thesis
    by (cases v) (auto simp add: js_bind_def read_prop_def js_return_def)
qed

lemma AuthGuard_canActivate_steps:
  "AuthGuard_canActivate r s =
     (if (case r ''authorized'' [getHandler s, getClass s] of
            None \<Rightarrow> False
          | Some md \<Rightarrow> ''SkipAuthorizationCheck'' \<in> set md)
      then (Inr True, s)
      else if truthy_headers (headers (getRequest s))
      then js_bind (read_prop (headers (getRequest s)) ''api_key'')
             (\<lambda>api_key. if strict_eq_str api_key ''MY_API_KEY''
                        then js_return True else js_return False) s
      else (Inr False, s))"
  by (cases "r ''authorized'' [getHandler s, getClass s]")
    (simp_all add: AuthGuard_canActivate_def switchToHttp_getRequest_def
      context_getHandler_def context_getClass_def Array_includes_def Let_def
      js_bind_def [where m = "\<lambda>s. (Inr (getRequest s), s)"]
      js_bind_def [where m = "\<lambda>s. (Inr (getHandler s), s)"]
      js_bind_def [where m = "\<lambda>s. (Inr (getClass s), s)"]
      js_return_def [of True] js_return_def [of False])

lemma AuthGuard_canActivate_eq:
  "AuthGuard_canActivate r s =
     (Inr ((case r ''authorized'' [getHandler s, getClass s] of
              None \<Rightarrow> False
            | Some md \<Rightarrow> ''SkipAuthorizationCheck'' \<in> set md)
           \<or> (case headers (getRequest s) of
                 HObj H \<Rightarrow> H ''api_key'' = Some (JStr ''MY_API_KEY'')
               | _ \<Rightarrow> False)), s)"
  by (cases "headers (getRequest s)")
    (simp_all add: AuthGuard_canActivate_steps api_key_read)

lemma canActivate_frame: "snd (canActivate g s) = s"
  by (cases g) (simp_all add: AuthGuard_canActivate_eq BusinessGuard_canActivate_eq)


lemma siblings_frame: "foldl (\<lambda>s' g'. snd (canActivate g' s')) s gs = s"
  by (induction gs arbitrary: s) (simp_all add: canActivate_frame)

lemma tryActivate_two:
  "tryActivate [g1, g2] s =
     (case fst (canActivate g1 s) of
        Inl e \<Rightarrow> (Inl e, s, [g1])
      | Inr False \<Rightarrow> (Inr False, s, [g1])
      | Inr True \<Rightarrow>
          (case fst (canActivate g2 s) of
             Inl e \<Rightarrow> (Inl e, s, [g1, g2])
           | Inr b \<Rightarrow> (Inr b, s, [g1, g2])))"
proof -
  obtain v1 where c1: "canActivate g1 s = (v1, s)"
    using canActivate_frame [of g1 s] by (cases "canActivate g1 s") simp
  obtain v2 where c2: "canActivate g2 s = (v2, s)"
    using canActivate_frame [of g2 s] by (cases "canActivate g2 s") simp
  show ?thesis
    using c1 c2 by (simp split: sum.split bool.split)
qed

lemmas ctx_defs =
  request_with_def ctx_right_key_def ctx_wrong_key_def ctx_key_and_business_def
  ctx_public_no_headers_def ctx_without_headers_def AppController_class_def
  AppController_getPublic_handler_def AuthMetaData_def SetMetadata_def

section \<open>The credential guard\<close>

text \<open>
  C1.  For every header mapping \<open>H\<close> of the request, when no bypass metadata applies
  (the lookup answers \<open>undefined\<close> or a sequence without the tag
  \<open>SkipAuthorizationCheck\<close>), \<open>AuthGuard.canActivate\<close> returns \<open>true\<close> if
  \<open>H['api_key']\<close> is the string \<open>MY_API_KEY\<close> and \<open>false\<close> for every other
  value, an absent key included.
\<close>

theorem AuthGuard_credential_check:
  assumes "headers (getRequest s) = HObj H"
    and "case r ''authorized'' [getHandler s, getClass s] of
           None \<Rightarrow> True
         | Some md \<Rightarrow> ''SkipAuthorizationCheck'' \<notin> set md"
  shows "AuthGuard_canActivate r s = (Inr (H ''api_key'' = Some (JStr ''MY_API_KEY'')), s)"
  using assms
  by (cases "r ''authorized'' [getHandler s, getClass s]")
    (simp_all add: AuthGuard_canActivate_eq)

theorem AuthGuard_credential_check_witness:
  "AuthGuard_canActivate Reflector_getAllAndOverride ctx_right_key = (Inr True, ctx_right_key)
   \<and> AuthGuard_canActivate Reflector_getAllAndOverride ctx_wrong_key
       = (Inr False, ctx_wrong_key)
   \<and> AuthGuard_canActivate Reflector_getAllAndOverride (request_with Map.empty Map.empty)
       = (Inr False, request_with Map.empty Map.empty)"
  using
    AuthGuard_credential_check [of ctx_right_key "[''api_key'' \<mapsto> JStr ''MY_API_KEY'']"
      Reflector_getAllAndOverride]
    AuthGuard_credential_check [of ctx_wrong_key "[''api_key'' \<mapsto> JStr ''MY_API'']"
      Reflector_getAllAndOverride]
    AuthGuard_credential_check [of "request_with Map.empty Map.empty" Map.empty
      Reflector_getAllAndOverride]
  by (simp add: ctx_defs)

text \<open>
  C2.  Whenever the metadata sequence resolved for the key \<open>authorized\<close> contains the
  tag \<open>SkipAuthorizationCheck\<close>, \<open>AuthGuard.canActivate\<close> returns \<open>true\<close>
  whatever the headers are, also without any \<open>api_key\<close> header and without a headers
  object: the bypass is tested first and wins.
\<close>

theorem AuthGuard_bypass_dominates:
  assumes "r ''authorized'' [getHandler s, getClass s] = Some md"
    and "''SkipAuthorizationCheck'' \<in> set md"
  shows "AuthGuard_canActivate r s = (Inr True, s)"
  using assms by (simp add: AuthGuard_canActivate_eq)

theorem AuthGuard_bypass_dominates_witness:
  "AuthGuard_canActivate Reflector_getAllAndOverride ctx_public_no_headers
     = (Inr True, ctx_public_no_headers)"
  using AuthGuard_bypass_dominates [of Reflector_getAllAndOverride ctx_public_no_headers
      "[''SkipAuthorizationCheck'']"]
  by (simp add: ctx_defs)

text \<open>
  C9.  When the request has no headers object (\<open>undefined\<close> or \<open>null\<close>) and no
  bypass metadata applies, \<open>AuthGuard.canActivate\<close> returns \<open>false\<close> and raises
  nothing: the truthiness test of the headers object comes before the read of
  \<open>api_key\<close>.
\<close>

theorem AuthGuard_absent_headers_deny:
  assumes "headers (getRequest s) = HUndefined \<or> headers (getRequest s) = HNull"
    and "case r ''authorized'' [getHandler s, getClass s] of
           None \<Rightarrow> True
         | Some md \<Rightarrow> ''SkipAuthorizationCheck'' \<notin> set md"
  shows "AuthGuard_canActivate r s = (Inr False, s)"
  using assms
  by (cases "r ''authorized'' [getHandler s, getClass s]")
    (auto simp add: AuthGuard_canActivate_eq)

theorem AuthGuard_absent_headers_deny_witness:
  "AuthGuard_canActivate Reflector_getAllAndOverride ctx_without_headers
     = (Inr False, ctx_without_headers)
   \<and> AuthGuard_canActivate Reflector_getAllAndOverride
        (ctx_without_headers\<lparr>getRequest := \<lparr>headers = HNull\<rparr>\<rparr>)
     = (Inr False, ctx_without_headers\<lparr>getRequest := \<lparr>headers = HNull\<rparr>\<rparr>)"
  using
    AuthGuard_absent_headers_deny [of ctx_without_headers Reflector_getAllAndOverride]
    AuthGuard_absent_headers_deny
      [of "ctx_without_headers\<lparr>getRequest := \<lparr>headers = HNull\<rparr>\<rparr>"
        Reflector_getAllAndOverride]
  by (simp add: ctx_defs)

text \<open>
  C6.  When neither the handler nor the class defines the key \<open>authorized\<close>, the lookup
  answers \<open>undefined\<close> and \<open>AuthGuard.canActivate\<close> does what it does for an empty
  metadata sequence: no bypass, no exception, and the verdict of the \<open>api_key\<close> check.
\<close>

theorem AuthGuard_undefined_metadata_as_empty:
  assumes "getHandler s ''authorized'' = None"
    and "getClass s ''authorized'' = None"
  shows "Reflector_getAllAndOverride ''authorized'' [getHandler s, getClass s] = None
    \<and> AuthGuard_canActivate Reflector_getAllAndOverride s =
        (Inr (case headers (getRequest s) of
                HObj H \<Rightarrow> H ''api_key'' = Some (JStr ''MY_API_KEY'')
              | _ \<Rightarrow> False), s)
    \<and> fst (AuthGuard_canActivate Reflector_getAllAndOverride
             (s\<lparr>getHandler := AuthMetaData [] (getHandler s)\<rparr>)) =
        fst (AuthGuard_canActivate Reflector_getAllAndOverride s)"
  using assms by (simp add: AuthGuard_canActivate_eq AuthMetaData_def SetMetadata_def)

theorem AuthGuard_undefined_metadata_as_empty_witness:
  "AuthGuard_canActivate Reflector_getAllAndOverride ctx_right_key = (Inr True, ctx_right_key)
   \<and> fst (AuthGuard_canActivate Reflector_getAllAndOverride
            (ctx_right_key\<lparr>getHandler := AuthMetaData [] Map.empty\<rparr>)) = Inr True
   \<and> AuthGuard_canActivate Reflector_getAllAndOverride ctx_wrong_key
       = (Inr False, ctx_wrong_key)
   \<and> fst (AuthGuard_canActivate Reflector_getAllAndOverride
            (ctx_wrong_key\<lparr>getHandler := AuthMetaData [] Map.empty\<rparr>)) = Inr False"
  using
    AuthGuard_undefined_metadata_as_empty [of ctx_right_key]
    AuthGuard_undefined_metadata_as_empty [of ctx_wrong_key]
  by (simp add: ctx_defs)

section \<open>Metadata lookup\<close>

text \<open>
  C5.  When both the handler and its class define a sequence for the key
  \<open>authorized\<close>, the lookup that \<open>AuthGuard\<close> uses answers the handler's sequence as
  it is, never a merge; so a handler whose own sequence lacks the bypass tag does not
  inherit the tag of its class, and the guard decides by the \<open>api_key\<close> check.
\<close>

theorem handler_metadata_overrides_class:
  assumes "h ''authorized'' = Some hm"
    and "c ''authorized'' = Some cm"
  shows "Reflector_getAllAndOverride ''authorized'' [h, c] = Some hm
    \<and> (''SkipAuthorizationCheck'' \<notin> set hm \<longrightarrow>
         AuthGuard_canActivate Reflector_getAllAndOverride
           \<lparr>getRequest = rq, getHandler = h, getClass = c\<rparr> =
         (Inr (case headers rq of
                 HObj H \<Rightarrow> H ''api_key'' = Some (JStr ''MY_API_KEY'')
               | _ \<Rightarrow> False),
          \<lparr>getRequest = rq, getHandler = h, getClass = c\<rparr>))"
  using assms by (simp add: AuthGuard_canActivate_eq)

theorem handler_metadata_overrides_class_witness:
  "Reflector_getAllAndOverride ''authorized''
     [AuthMetaData [''Audited''] Map.empty,
      AuthMetaData [''SkipAuthorizationCheck''] Map.empty] = Some [''Audited'']
   \<and> fst (AuthGuard_canActivate Reflector_getAllAndOverride
          \<lparr>getRequest = \<lparr>headers = HObj Map.empty\<rparr>,
           getHandler = AuthMetaData [''Audited''] Map.empty,
           getClass = AuthMetaData [''SkipAuthorizationCheck''] Map.empty\<rparr>) = Inr False"
  using handler_metadata_overrides_class
      [of "AuthMetaData [''Audited''] Map.empty" "[''Audited'']"
        "AuthMetaData [''SkipAuthorizationCheck''] Map.empty" "[''SkipAuthorizationCheck'']"
        "\<lparr>headers = HObj Map.empty\<rparr>"]
  by (simp add: ctx_defs)

section \<open>The business guard\<close>

text \<open>
  C4.  For every header mapping \<open>H\<close> of the request, \<open>BusinessGuard.canActivate\<close>
  returns \<open>true\<close> if and only if \<open>H['business_id']\<close> is exactly the string
  \<open>892367480\<close>; a missing key and every other value, the number 892367480 included,
  give \<open>false\<close>.  The verdict is the same whatever metadata the handler and the class
  carry.
\<close>

theorem BusinessGuard_exact_match:
  "(headers (getRequest s) = HObj H \<longrightarrow>
      BusinessGuard_canActivate s =
        (Inr (H ''business_id'' = Some (JStr ''892367480'')), s))
   \<and> fst (BusinessGuard_canActivate (s\<lparr>getHandler := h, getClass := c\<rparr>)) =
       fst (BusinessGuard_canActivate s)"
  by (simp add: BusinessGuard_canActivate_eq)

theorem BusinessGuard_exact_match_witness:
  "fst (BusinessGuard_canActivate ctx_key_and_business) = Inr True
   \<and> fst (BusinessGuard_canActivate ctx_right_key) = Inr False
   \<and> fst (BusinessGuard_canActivate
            (request_with [''business_id'' \<mapsto> JNum 892367480] Map.empty)) = Inr False
   \<and> fst (BusinessGuard_canActivate
            (request_with [''business_id'' \<mapsto> JStr ''0892367480''] Map.empty)) = Inr False
   \<and> fst (BusinessGuard_canActivate
            (request_with [''business_id'' \<mapsto> JArr [''892367480'']] Map.empty)) = Inr False"
  using
    BusinessGuard_exact_match [of ctx_key_and_business
      "[''api_key'' \<mapsto> JStr ''MY_API_KEY'', ''business_id'' \<mapsto> JStr ''892367480'']"]
    BusinessGuard_exact_match [of ctx_right_key "[''api_key'' \<mapsto> JStr ''MY_API_KEY'']"]
    BusinessGuard_exact_match
      [of "request_with [''business_id'' \<mapsto> JNum 892367480] Map.empty"
        "[''business_id'' \<mapsto> JNum 892367480]"]
    BusinessGuard_exact_match
      [of "request_with [''business_id'' \<mapsto> JStr ''0892367480''] Map.empty"
        "[''business_id'' \<mapsto> JStr ''0892367480'']"]
    BusinessGuard_exact_match
      [of "request_with [''business_id'' \<mapsto> JArr [''892367480'']] Map.empty"
        "[''business_id'' \<mapsto> JArr [''892367480'']]"]
  by (simp add: ctx_defs)

text \<open>
  C10.  \<open>BusinessGuard.canActivate\<close> leaves the request, its header mapping and the rest
  of the context as they were, whatever it returns or raises.
\<close>

theorem BusinessGuard_leaves_context_unchanged:
  "snd (BusinessGuard_canActivate s) = s
   \<and> getRequest (snd (BusinessGuard_canActivate s)) = getRequest s
   \<and> headers (getRequest (snd (BusinessGuard_canActivate s))) = headers (getRequest s)"
  using canActivate_frame [of BusinessGuard s] by simp

section \<open>Failure modes\<close>

text \<open>
  C7.  In every context whose request carries a header mapping \<open>H\<close>, each guard ends
  with an ordinary boolean and raises nothing, and every failure mode is the one verdict
  \<open>false\<close>: a missing \<open>business_id\<close> or \<open>api_key\<close> header, a wrong value of
  either, and absent metadata together with a missing or wrong \<open>api_key\<close>.
\<close>

theorem guards_return_boolean:
  assumes "headers (getRequest s) = HObj H"
  shows "(\<exists>b. canActivate g s = (Inr b, s))
    \<and> (H ''business_id'' = None \<longrightarrow> BusinessGuard_canActivate s = (Inr False, s))
    \<and> (H ''business_id'' = Some v \<and> v \<noteq> JStr ''892367480'' \<longrightarrow>
         BusinessGuard_canActivate s = (Inr False, s))
    \<and> (r ''authorized'' [getHandler s, getClass s] = None \<and> H ''api_key'' = None \<longrightarrow>
         AuthGuard_canActivate r s = (Inr False, s))
    \<and> (r ''authorized'' [getHandler s, getClass s] = None
         \<and> H ''api_key'' = Some w \<and> w \<noteq> JStr ''MY_API_KEY'' \<longrightarrow>
         AuthGuard_canActivate r s = (Inr False, s))"
proof -
  have returns: "\<exists>b. canActivate g s = (Inr b, s)"
    using assms
    by (cases g) (simp_all add: AuthGuard_canActivate_eq BusinessGuard_canActivate_eq)
  have business: "BusinessGuard_canActivate s =
      (Inr (H ''business_id'' = Some (JStr ''892367480'')), s)"
    using assms by (simp add: BusinessGuard_canActivate_eq)
  have auth: "r ''authorized'' [getHandler s, getClass s] = None \<Longrightarrow>
      AuthGuard_canActivate r s = (Inr (H ''api_key'' = Some (JStr ''MY_API_KEY'')), s)"
    using assms by (simp add: AuthGuard_canActivate_eq)
  show ?thesis
    using returns business auth by auto
qed

theorem guards_return_boolean_witness:
  "BusinessGuard_canActivate (request_with Map.empty Map.empty) =
     (Inr False, request_with Map.empty Map.empty)
   \<and> AuthGuard_canActivate Reflector_getAllAndOverride (request_with Map.empty Map.empty) =
     (Inr False, request_with Map.empty Map.empty)
   \<and> BusinessGuard_canActivate
       (request_with [''api_key'' \<mapsto> JStr ''MY_API'', ''business_id'' \<mapsto> JStr ''123'']
          Map.empty) =
     (Inr False,
      request_with [''api_key'' \<mapsto> JStr ''MY_API'', ''business_id'' \<mapsto> JStr ''123'']
        Map.empty)
   \<and> AuthGuard_canActivate Reflector_getAllAndOverride
       (request_with [''api_key'' \<mapsto> JStr ''MY_API'', ''business_id'' \<mapsto> JStr ''123'']
          Map.empty) =
     (Inr False,
      request_with [''api_key'' \<mapsto> JStr ''MY_API'', ''business_id'' \<mapsto> JStr ''123'']
        Map.empty)"
  using
    guards_return_boolean [of "request_with Map.empty Map.empty" Map.empty BusinessGuard
      JNull Reflector_getAllAndOverride JNull]
    guards_return_boolean
      [of "request_with [''api_key'' \<mapsto> JStr ''MY_API'', ''business_id'' \<mapsto> JStr ''123'']
             Map.empty"
        "[''api_key'' \<mapsto> JStr ''MY_API'', ''business_id'' \<mapsto> JStr ''123'']"
        BusinessGuard "JStr ''123''" Reflector_getAllAndOverride "JStr ''MY_API''"]
  by (simp add: ctx_defs)

section \<open>Purity and composition\<close>

text \<open>
  C8.  The verdict of a guard is a function of the context alone, through the headers and
  the resolved metadata: evaluating the same guard again gives the same verdict, the
  verdict is the same after any sibling guards have run, in any order, and two contexts
  with the same headers and the same resolved metadata get the same verdict.
\<close>

theorem guard_verdict_pure:
  "fst (canActivate g (snd (canActivate g s))) = fst (canActivate g s)
   \<and> fst (canActivate g (foldl (\<lambda>s' g'. snd (canActivate g' s')) s siblings)) =
       fst (canActivate g s)
   \<and> (headers (getRequest s) = headers (getRequest s')
        \<and> r ''authorized'' [getHandler s, getClass s] =
            r ''authorized'' [getHandler s', getClass s']
        \<longrightarrow> fst (AuthGuard_canActivate r s) = fst (AuthGuard_canActivate r s'))
   \<and> (headers (getRequest s) = headers (getRequest s')
        \<longrightarrow> fst (BusinessGuard_canActivate s) = fst (BusinessGuard_canActivate s'))"
proof -
  have again: "fst (canActivate g (snd (canActivate g s))) = fst (canActivate g s)"
    by (simp only: canActivate_frame)
  have after_siblings:
    "fst (canActivate g (foldl (\<lambda>s' g'. snd (canActivate g' s')) s siblings)) =
       fst (canActivate g s)"
    by (simp only: siblings_frame)
  show ?thesis
    using again after_siblings
    by (simp add: AuthGuard_canActivate_eq BusinessGuard_canActivate_eq)
qed

theorem guard_verdict_pure_witness:
  "fst (AuthGuard_canActivate Reflector_getAllAndOverride ctx_public_no_headers) =
     fst (AuthGuard_canActivate Reflector_getAllAndOverride
            (ctx_public_no_headers\<lparr>getHandler := Map.empty,
               getClass := AuthMetaData [''SkipAuthorizationCheck''] Map.empty\<rparr>))
   \<and> fst (BusinessGuard_canActivate ctx_public_no_headers) =
       fst (BusinessGuard_canActivate
            (ctx_public_no_headers\<lparr>getHandler := Map.empty,
               getClass := AuthMetaData [''SkipAuthorizationCheck''] Map.empty\<rparr>))
   \<and> ctx_public_no_headers \<noteq>
       ctx_public_no_headers\<lparr>getHandler := Map.empty,
         getClass := AuthMetaData [''SkipAuthorizationCheck''] Map.empty\<rparr>"
proof -
  have different: "AuthMetaData [''SkipAuthorizationCheck''] Map.empty \<noteq> Map.empty"
    by (simp add: AuthMetaData_def SetMetadata_def)
  show ?thesis
    using different
      guard_verdict_pure [of BusinessGuard ctx_public_no_headers "[]"
        "ctx_public_no_headers\<lparr>getHandler := Map.empty,
           getClass := AuthMetaData [''SkipAuthorizationCheck''] Map.empty\<rparr>"
        Reflector_getAllAndOverride]
    by (simp add: ctx_defs)
qed

text \<open>
  C3.  For the handler bound to the ordered guards \<open>AuthGuard\<close>, \<open>BusinessGuard\<close>:
  when \<open>AuthGuard\<close> denies, the verdict is deny and \<open>BusinessGuard\<close> is not
  evaluated; when \<open>AuthGuard\<close> allows and \<open>BusinessGuard\<close> denies, the verdict is
  deny; the handler is dispatched exactly when both allow.
\<close>

theorem guards_ordered_and:
  "(fst (AuthGuard_canActivate r s) = Inr False \<longrightarrow>
      tryActivate (AppController_test_guards r) s = (Inr False, s, [AuthGuard r]))
   \<and> (fst (AuthGuard_canActivate r s) = Inr True
        \<and> fst (BusinessGuard_canActivate s) = Inr False \<longrightarrow>
      tryActivate (AppController_test_guards r) s =
        (Inr False, s, [AuthGuard r, BusinessGuard]))
   \<and> (route (AppController_test_guards r) AppController_test s =
         Dispatched AppController_test
       \<longleftrightarrow> fst (AuthGuard_canActivate r s) = Inr True
           \<and> fst (BusinessGuard_canActivate s) = Inr True)"
proof -
  let ?auth = "fst (canActivate (AuthGuard r) s)"
  let ?business = "fst (canActivate BusinessGuard s)"
  have run: "tryActivate (AppController_test_guards r) s =
      (case ?auth of
         Inl e \<Rightarrow> (Inl e, s, [AuthGuard r])
       | Inr False \<Rightarrow> (Inr False, s, [AuthGuard r])
       | Inr True \<Rightarrow>
           (case ?business of
              Inl e \<Rightarrow> (Inl e, s, [AuthGuard r, BusinessGuard])
            | Inr b \<Rightarrow> (Inr b, s, [AuthGuard r, BusinessGuard])))"
    unfolding AppController_test_guards_def by (rule tryActivate_two)
  have auth: "?auth = fst (AuthGuard_canActivate r s)"
    and business: "?business = fst (BusinessGuard_canActivate s)"
    by simp_all
  show ?thesis
    unfolding route_def run auth business
    by (auto split: sum.splits bool.splits)
qed

theorem guards_ordered_and_witness:
  "tryActivate (AppController_test_guards Reflector_getAllAndOverride) ctx_wrong_key =
     (Inr False, ctx_wrong_key, [AuthGuard Reflector_getAllAndOverride])
   \<and> tryActivate (AppController_test_guards Reflector_getAllAndOverride) ctx_right_key =
     (Inr False, ctx_right_key, [AuthGuard Reflector_getAllAndOverride, BusinessGuard])
   \<and> route (AppController_test_guards Reflector_getAllAndOverride) AppController_test
       ctx_key_and_business = Dispatched ''This is a Test Route''"
  using
    guards_ordered_and [of Reflector_getAllAndOverride ctx_wrong_key]
    guards_ordered_and [of Reflector_getAllAndOverride ctx_right_key]
    guards_ordered_and [of Reflector_getAllAndOverride ctx_key_and_business]
  by (simp add: AuthGuard_canActivate_eq BusinessGuard_canActivate_eq ctx_defs
      AppController_test_def)

end
